theory Spec2Isabelle
  imports Main "HOL-Library.Sublist"
begin

unbundle bit_operations_syntax

section \<open>The gin engine as the core package sees it\<close>

text \<open>
  The core package drives the gin HTTP library through a handful of calls:
  \<^verbatim>\<open>gin.New()\<close>, \<^verbatim>\<open>gin.Default()\<close>, \<^verbatim>\<open>engine.Use(h)\<close> and the seven registration
  methods \<^verbatim>\<open>engine.GET(path, hs...)\<close>, \<^verbatim>\<open>POST\<close>, \<^verbatim>\<open>DELETE\<close>, \<^verbatim>\<open>PATCH\<close>, \<^verbatim>\<open>PUT\<close>,
  \<^verbatim>\<open>OPTIONS\<close>, \<^verbatim>\<open>HEAD\<close>. gin is a third-party library; this section models what these
  calls do to an engine, and where they panic.
\<close>

datatype verb = GET | POST | DELETE | PATCH | PUT | OPTIONS | HEAD

text \<open>
  A \<^verbatim>\<open>gin.HandlerFunc\<close>. \<open>Logger\<close> and \<open>Recovery\<close> are the two handlers that
  \<^verbatim>\<open>gin.Default()\<close> installs, \<open>secureFunc\<close> is the closure built in \<^verbatim>\<open>Run\<close>, and
  \<open>Handler h\<close> is a handler supplied by the application.
\<close>

datatype 'h HandlerFunc = Logger | Recovery | secureFunc | Handler 'h

datatype error = EINVAL | ErrSyntax string | PathError string

text \<open>
  The value of a panic: an \<^verbatim>\<open>error\<close>, a message, or the refusal of a route by gin's
  routing tree (whose message depends on the kind of conflict).
\<close>

datatype panic = PanicError error | PanicString string | PanicRoute verb string

text \<open>
  An engine holds the handlers of its router group (those given to \<^verbatim>\<open>Use\<close>, in call
  order) and its registrations in the order they were made: the verb, the absolute path
  and the chain stored for it. The base path of the router group of an engine is
  \<^verbatim>\<open>/\<close>.

  The routing tree of a verb refuses a path that it holds already. It also refuses a
  path whose wild cards (\<^verbatim>\<open>:name\<close>, \<^verbatim>\<open>*name\<close>) are malformed or clash with the
  paths it holds; the rules for that differ between the releases of gin, so this
  decision is the parameter \<open>tree_refuses\<close> of the engine: \<open>tree_refuses paths path\<close>
  says whether the tree holding \<open>paths\<close>, added in this order, panics when \<open>path\<close>,
  not among them, is added.
\<close>

record 'h Engine =
  RouterGroup_Handlers :: "'h HandlerFunc list"
  trees :: "(verb \<times> string \<times> 'h HandlerFunc list) list"
  tree_refuses :: "string list \<Rightarrow> string \<Rightarrow> bool"

definition gin_New :: "(string list \<Rightarrow> string \<Rightarrow> bool) \<Rightarrow> 'h Engine" where
  "gin_New refuses = \<lparr>RouterGroup_Handlers = [], trees = [], tree_refuses = refuses\<rparr>"

definition gin_Use :: "'h HandlerFunc list \<Rightarrow> 'h Engine \<Rightarrow> 'h Engine" where
  "gin_Use hs engine = engine\<lparr>RouterGroup_Handlers := RouterGroup_Handlers engine @ hs\<rparr>"

definition gin_Default :: "(string list \<Rightarrow> string \<Rightarrow> bool) \<Rightarrow> 'h Engine" where
  "gin_Default refuses = gin_Use [Logger, Recovery] (gin_New refuses)"

subsection \<open>Joining paths\<close>

text \<open>\<^verbatim>\<open>strings.Split(s, "/")\<close>.\<close>

fun split_slash :: "string \<Rightarrow> string list" where
  "split_slash [] = [[]]"
| "split_slash (c # s) =
     (if c = CHR ''/'' then [] # split_slash s
      else (case split_slash s of
              [] \<Rightarrow> [[c]]
            | seg # segs \<Rightarrow> (c # seg) # segs))"

text \<open>
  \<^verbatim>\<open>path.Clean\<close> of a rooted path: empty elements and \<^verbatim>\<open>.\<close> are dropped, \<^verbatim>\<open>..\<close>
  removes the element before it (and is dropped at the root). \<open>clean_elems\<close> keeps
  the elements seen so far in reverse.
\<close>

fun clean_elems :: "string list \<Rightarrow> string list \<Rightarrow> string list" where
  "clean_elems seen [] = rev seen"
| "clean_elems seen (elem # elems) =
     (if elem = [] \<or> elem = ''.'' then clean_elems seen elems
      else if elem = ''..'' then clean_elems (tl seen) elems
      else clean_elems (elem # seen) elems)"

fun join_slash :: "string list \<Rightarrow> string" where
  "join_slash [] = []"
| "join_slash [elem] = elem"
| "join_slash (elem # elems) = elem @ ''/'' @ join_slash elems"

definition path_Clean :: "string \<Rightarrow> string" where
  "path_Clean p = CHR ''/'' # join_slash (clean_elems [] (split_slash p))"

text \<open>
  gin's \<^verbatim>\<open>joinPaths\<close>, for a rooted \<open>absolutePath\<close>: \<^verbatim>\<open>path.Join\<close> of the two, with
  the trailing slash of \<open>relativePath\<close> put back.
\<close>

definition joinPaths :: "string \<Rightarrow> string \<Rightarrow> string" where
  "joinPaths absolutePath relativePath =
     (if relativePath = [] then absolutePath
      else (let finalPath = path_Clean (absolutePath @ ''/'' @ relativePath)
            in if last relativePath = CHR ''/'' \<and> last finalPath \<noteq> CHR ''/''
               then finalPath @ ''/'' else finalPath))"

subsection \<open>Registering a route\<close>

text \<open>The paths that the routing tree of a verb holds, in the order they were added.\<close>

definition tree_paths :: "verb \<Rightarrow> 'h Engine \<Rightarrow> string list" where
  "tree_paths v engine = map (fst \<circ> snd) (filter (\<lambda>r. fst r = v) (trees engine))"

text \<open>
  \<^verbatim>\<open>RouterGroup.handle\<close>, which each of the seven registration methods calls with its
  verb: the absolute path is joined from the base path and the path given; the chain is
  the handlers of the group followed by the handlers given, and 63 handlers or more are
  too many; \<^verbatim>\<open>addRoute\<close> then asks for at least one handler and adds the path to the
  tree of the verb.
\<close>

definition gin_handle ::
  "verb \<Rightarrow> string \<Rightarrow> 'h HandlerFunc list \<Rightarrow> 'h Engine \<Rightarrow> panic + 'h Engine" where
  "gin_handle v relativePath hs engine =
     (let absolutePath = joinPaths ''/'' relativePath;
          handlers = RouterGroup_Handlers engine @ hs
      in if 63 \<le> length handlers then Inl (PanicString ''too many handlers'')
         else if handlers = [] then Inl (PanicString ''there must be at least one handler'')
         else if absolutePath \<in> set (tree_paths v engine)
                 \<or> tree_refuses engine (tree_paths v engine) absolutePath
              then Inl (PanicRoute v absolutePath)
         else Inr (engine\<lparr>trees := trees engine @ [(v, absolutePath, handlers)]\<rparr>))"

text \<open>Whether gin takes a registration: the conditions under which \<open>gin_handle\<close> does not panic.\<close>

definition gin_accepts ::
  "verb \<Rightarrow> string \<Rightarrow> 'h HandlerFunc list \<Rightarrow> 'h Engine \<Rightarrow> bool" where
  "gin_accepts v relativePath hs engine \<longleftrightarrow>
     RouterGroup_Handlers engine @ hs \<noteq> [] \<and>
     length (RouterGroup_Handlers engine @ hs) < 63 \<and>
     joinPaths ''/'' relativePath \<notin> set (tree_paths v engine) \<and>
     \<not> tree_refuses engine (tree_paths v engine) (joinPaths ''/'' relativePath)"

section \<open>Routes\<close>

text \<open>\<^verbatim>\<open>routing.Route\<close>: a method string, a path and an ordered handler chain.\<close>

record 'h Route =
  Method :: string
  Path :: string
  Handlers :: "'h HandlerFunc list"

text \<open>
  \<^verbatim>\<open>handleRoute\<close>: a switch on \<^verbatim>\<open>route.Method\<close> with seven cases and no default.
\<close>

definition handleRoute :: "'h Route \<Rightarrow> 'h Engine \<Rightarrow> panic + 'h Engine" where
  "handleRoute route ginEngine =
     (if Method route = ''get'' then gin_handle GET (Path route) (Handlers route) ginEngine
      else if Method route = ''post'' then gin_handle POST (Path route) (Handlers route) ginEngine
      else if Method route = ''delete'' then gin_handle DELETE (Path route) (Handlers route) ginEngine
      else if Method route = ''patch'' then gin_handle PATCH (Path route) (Handlers route) ginEngine
      else if Method route = ''put'' then gin_handle PUT (Path route) (Handlers route) ginEngine
      else if Method route = ''options'' then gin_handle OPTIONS (Path route) (Handlers route) ginEngine
      else if Method route = ''head'' then gin_handle HEAD (Path route) (Handlers route) ginEngine
      else Inr ginEngine)"

text \<open>The lower-case spelling of each HTTP verb.\<close>

fun verb_name :: "verb \<Rightarrow> string" where
  "verb_name GET = ''get''"
| "verb_name POST = ''post''"
| "verb_name DELETE = ''delete''"
| "verb_name PATCH = ''patch''"
| "verb_name PUT = ''put''"
| "verb_name OPTIONS = ''options''"
| "verb_name HEAD = ''head''"

definition recognized :: "string list" where
  "recognized = [''get'', ''post'', ''delete'', ''patch'', ''put'', ''options'', ''head'']"

section \<open>The Go standard library, as far as the package uses it\<close>

subsection \<open>\<^verbatim>\<open>strings.TrimSpace\<close>\<close>

text \<open>
  A Go string is a sequence of bytes, here a \<open>string\<close>. \<^verbatim>\<open>strings.TrimSpace\<close> removes
  the leading and the trailing white space, as \<^verbatim>\<open>unicode.IsSpace\<close> defines it, of the
  UTF-8 text: the runes U+0009 to U+000D, U+0020, U+0085, U+00A0, U+1680, U+2000 to
  U+200A, U+2028, U+2029, U+202F, U+205F and U+3000. \<open>space_runes\<close> lists their UTF-8
  encodings. The first rune of a string is white space exactly when one of these
  encodings is a prefix of it, and the last rune is white space exactly when one of
  them is a suffix (a malformed sequence decodes to U+FFFD, which is no white space).
\<close>

definition space_runes :: "string list" where
  "space_runes =
    [[CHR 0x09], [CHR 0x0A], [CHR 0x0B], [CHR 0x0C], [CHR 0x0D], [CHR 0x20],
     [CHR 0xC2, CHR 0x85], [CHR 0xC2, CHR 0xA0],
     [CHR 0xE1, CHR 0x9A, CHR 0x80],
     [CHR 0xE2, CHR 0x80, CHR 0x80], [CHR 0xE2, CHR 0x80, CHR 0x81],
     [CHR 0xE2, CHR 0x80, CHR 0x82], [CHR 0xE2, CHR 0x80, CHR 0x83],
     [CHR 0xE2, CHR 0x80, CHR 0x84], [CHR 0xE2, CHR 0x80, CHR 0x85],
     [CHR 0xE2, CHR 0x80, CHR 0x86], [CHR 0xE2, CHR 0x80, CHR 0x87],
     [CHR 0xE2, CHR 0x80, CHR 0x88], [CHR 0xE2, CHR 0x80, CHR 0x89],
     [CHR 0xE2, CHR 0x80, CHR 0x8A],
     [CHR 0xE2, CHR 0x80, CHR 0xA8], [CHR 0xE2, CHR 0x80, CHR 0xA9],
     [CHR 0xE2, CHR 0x80, CHR 0xAF], [CHR 0xE2, CHR 0x81, CHR 0x9F],
     [CHR 0xE3, CHR 0x80, CHR 0x80]]"

text \<open>The encoding of the first (last) rune of \<open>s\<close> when that rune is white space.\<close>

definition leadingSpace :: "string \<Rightarrow> string option" where
  "leadingSpace s = find (\<lambda>e. prefix e s) space_runes"

definition trailingSpace :: "string \<Rightarrow> string option" where
  "trailingSpace s = find (\<lambda>e. suffix e s) space_runes"

lemma find_Some_mem: "find P xs = Some x \<Longrightarrow> P x \<and> x \<in> set xs"
  by (induction xs) (auto split: if_splits)

lemma space_runes_nonempty: "e \<in> set space_runes \<Longrightarrow> e \<noteq> []"
  unfolding space_runes_def by (simp only: list.set insert_iff empty_iff) blast

lemma leadingSpace_Some:
  "leadingSpace s = Some e \<Longrightarrow> e \<noteq> [] \<and> prefix e s"
  unfolding leadingSpace_def using find_Some_mem space_runes_nonempty by fastforce

lemma trailingSpace_Some:
  "trailingSpace s = Some e \<Longrightarrow> e \<noteq> [] \<and> suffix e s"
  unfolding trailingSpace_def using find_Some_mem space_runes_nonempty by fastforce

function TrimLeftSpace :: "string \<Rightarrow> string" where
  "TrimLeftSpace s =
     (case leadingSpace s of
        None \<Rightarrow> s
      | Some e \<Rightarrow> TrimLeftSpace (drop (length e) s))"
  by pat_completeness auto
termination
proof (relation "measure length")
  fix s e assume "leadingSpace s = Some e"
  then have "e \<noteq> []" "prefix e s" using leadingSpace_Some by blast+
  then have "length (drop (length e) s) < length s"
    by (cases e) (auto dest: prefix_length_le)
  then show "(drop (length e) s, s) \<in> measure length" by simp
qed simp

function TrimRightSpace :: "string \<Rightarrow> string" where
  "TrimRightSpace s =
     (case trailingSpace s of
        None \<Rightarrow> s
      | Some e \<Rightarrow> TrimRightSpace (take (length s - length e) s))"
  by pat_completeness auto
termination
proof (relation "measure length")
  fix s e assume "trailingSpace s = Some e"
  then have "e \<noteq> []" "suffix e s" using trailingSpace_Some by blast+
  then have "length (take (length s - length e) s) < length s"
    by (cases e) (auto dest: suffix_length_le)
  then show "(take (length s - length e) s, s) \<in> measure length" by simp
qed simp

declare TrimLeftSpace.simps [simp del]
declare TrimRightSpace.simps [simp del]

definition TrimSpace :: "string \<Rightarrow> string" where
  "TrimSpace s = TrimRightSpace (TrimLeftSpace s)"

subsection \<open>\<^verbatim>\<open>strconv.ParseBool\<close>\<close>

text \<open>
  \<^verbatim>\<open>ParseBool\<close> accepts 1, t, T, TRUE, true, True and 0, f, F, FALSE, false, False; any
  other string gives \<^verbatim>\<open>false\<close> together with a syntax error.
\<close>

definition ParseBool :: "string \<Rightarrow> bool \<times> error option" where
  "ParseBool str =
     (if str \<in> set [''1'', ''t'', ''T'', ''TRUE'', ''true'', ''True''] then (True, None)
      else if str \<in> set [''0'', ''f'', ''F'', ''FALSE'', ''false'', ''False''] then (False, None)
      else (False, Some (ErrSyntax str)))"

subsection \<open>Files and writers\<close>

datatype File = File nat

datatype Writer = Stdout | FileWriter File | MultiWriter "Writer list"

text \<open>The flags of \<^verbatim>\<open>os.OpenFile\<close> (their values on Linux).\<close>

definition O_CREATE :: nat where "O_CREATE = 0x40"
definition O_APPEND :: nat where "O_APPEND = 0x400"

section \<open>The application and the process it runs in\<close>

text \<open>
  \<^verbatim>\<open>type App struct { Features *Features }\<close>. The type \<^verbatim>\<open>Features\<close> is declared in
  another file of the package; it is the type parameter \<open>'f\<close>.
\<close>

record 'f App =
  Features :: 'f

text \<open>\<^verbatim>\<open>New\<close> takes the freshly allocated \<^verbatim>\<open>&Features{}\<close> as its argument.\<close>

definition New :: "'f \<Rightarrow> 'f App" where
  "New zero = \<lparr>Features = zero\<rparr>"

record 'h Router =
  GetRoutes :: "'h Route list"

text \<open>
  What \<^verbatim>\<open>Run\<close> does to the outside, in order: starting a goroutine that serves TLS,
  serving on the calling goroutine, closing the log file.
\<close>

datatype 'h event =
    GoRunTLS "'h Engine" string string string
  | EngineRun "'h Engine" string
  | Close File

text \<open>
  The state of the process. \<open>app\<close> is the \<^verbatim>\<open>App\<close> the receiver points to;
  \<open>environ\<close> is the process environment; \<open>gin_modeName\<close> and \<open>gin_DefaultWriter\<close> are
  gin's package variables; \<open>initiated\<close> lists the sub-engines whose \<^verbatim>\<open>New()\<close> has
  been called; \<open>events\<close> is the trace of \<open>event\<close>s. The remaining fields are what the
  outside answers: whether \<^verbatim>\<open>os.OpenFile\<close> succeeds, what the package integrator, the
  middlewares engine and the routing engine resolve to, whether serving on an
  address returns (with an error) or never returns (\<open>None\<close>), and which paths the
  routing trees of the gin in use refuse.
\<close>

record ('f, 'h) world =
  app :: "'f App"
  environ :: "string \<rightharpoonup> string"
  gin_modeName :: string
  gin_DefaultWriter :: Writer
  initiated :: "string list"
  events :: "'h event list"
  openFile :: "string \<Rightarrow> nat \<Rightarrow> nat \<Rightarrow> error + File"
  GetIntegrations :: "'h HandlerFunc list"
  GetMiddlewares :: "'h HandlerFunc list"
  ResolveRouter :: "'h Router"
  ListenAndServe :: "string \<Rightarrow> error option"
  gin_tree_refuses :: "string list \<Rightarrow> string \<Rightarrow> bool"

subsection \<open>The environment\<close>

text \<open>
  \<^verbatim>\<open>os.Getenv\<close> returns the empty string for a variable that is not set.
  \<^verbatim>\<open>os.Setenv\<close> returns \<^verbatim>\<open>EINVAL\<close> and sets nothing when the key is empty, when the
  key contains \<^verbatim>\<open>=\<close> or a NUL byte, or when the value contains a NUL byte.
\<close>

definition os_Getenv :: "string \<Rightarrow> ('f, 'h) world \<Rightarrow> string" where
  "os_Getenv key w = (case environ w key of None \<Rightarrow> [] | Some v \<Rightarrow> v)"

definition Setenv_accepts :: "string \<Rightarrow> string \<Rightarrow> bool" where
  "Setenv_accepts key val \<longleftrightarrow>
     key \<noteq> [] \<and> CHR ''='' \<notin> set key \<and> CHR 0x00 \<notin> set key \<and> CHR 0x00 \<notin> set val"

definition os_Setenv ::
  "string \<Rightarrow> string \<Rightarrow> ('f, 'h) world \<Rightarrow> error option \<times> ('f, 'h) world" where
  "os_Setenv key val w =
     (if Setenv_accepts key val then (None, w\<lparr>environ := (environ w)(key \<mapsto> val)\<rparr>)
      else (Some EINVAL, w))"

text \<open>
  \<^verbatim>\<open>SetEnv\<close>: the loop over the map, in the order the iteration yields its entries;
  the error of \<^verbatim>\<open>os.Setenv\<close> is dropped.
\<close>

fun SetEnv :: "(string \<times> string) list \<Rightarrow> ('f, 'h) world \<Rightarrow> ('f, 'h) world" where
  "SetEnv [] w = w"
| "SetEnv ((key, val) # env) w =
     SetEnv env (snd (os_Setenv (TrimSpace key) (TrimSpace val) w))"

subsection \<open>Host resolution\<close>

definition getHTTPSHost :: "('f, 'h) world \<Rightarrow> string" where
  "getHTTPSHost w =
     (let host = os_Getenv ''APP_HTTPS_HOST'' w;
          host = (if host = [] then os_Getenv ''APP_HTTP_HOST'' w else host);
          host = (if host = [] then ''localhost'' else host)
      in host)"

definition getHTTPHost :: "('f, 'h) world \<Rightarrow> string" where
  "getHTTPHost w =
     (let host = os_Getenv ''APP_HTTP_HOST'' w;
          host = (if host = [] then ''localhost'' else host)
      in host)"

subsection \<open>The gin mode\<close>

definition gin_DebugMode :: string where "gin_DebugMode = ''debug''"
definition gin_ReleaseMode :: string where "gin_ReleaseMode = ''release''"
definition gin_TestMode :: string where "gin_TestMode = ''test''"

text \<open>
  \<^verbatim>\<open>gin.SetMode\<close>: the empty string stands for the debug mode; a value that is none of
  the three mode names panics. (Releases of gin differ in what the empty string stands
  for; \<open>SetAppMode\<close> below never passes it.)
\<close>

definition gin_SetMode :: "string \<Rightarrow> ('f, 'h) world \<Rightarrow> panic + ('f, 'h) world" where
  "gin_SetMode value0 w =
     (let value = (if value0 = [] then gin_DebugMode else value0) in
      if value = gin_DebugMode \<or> value = gin_ReleaseMode \<or> value = gin_TestMode
      then Inr (w\<lparr>gin_modeName := value\<rparr>)
      else Inl (PanicString
        (''gin mode unknown: '' @ value @ '' (available mode: debug release test)'')))"

definition SetAppMode :: "string \<Rightarrow> ('f, 'h) world \<Rightarrow> panic + ('f, 'h) world" where
  "SetAppMode mode w =
     (if mode = gin_ReleaseMode \<or> mode = gin_TestMode \<or> mode = gin_DebugMode
      then gin_SetMode mode w
      else gin_SetMode gin_TestMode w)"

subsection \<open>Wiring the engines\<close>

fun IntegratePackages :: "'h Engine \<Rightarrow> 'h HandlerFunc list \<Rightarrow> 'h Engine" where
  "IntegratePackages engine [] = engine"
| "IntegratePackages engine (pkgIntegration # handlerFuncs) =
     IntegratePackages (gin_Use [pkgIntegration] engine) handlerFuncs"

fun useMiddlewares_loop :: "'h HandlerFunc list \<Rightarrow> 'h Engine \<Rightarrow> 'h Engine" where
  "useMiddlewares_loop [] engine = engine"
| "useMiddlewares_loop (middleware # rest) engine =
     useMiddlewares_loop rest (gin_Use [middleware] engine)"

definition useMiddlewares :: "'h Engine \<Rightarrow> ('f, 'h) world \<Rightarrow> 'h Engine" where
  "useMiddlewares engine w = useMiddlewares_loop (GetMiddlewares w) engine"

text \<open>
  \<^verbatim>\<open>registerRoutes\<close>: the loop over the routes of the router; a registration that
  panics ends it.
\<close>

fun registerRoutes_loop :: "'h Route list \<Rightarrow> 'h Engine \<Rightarrow> panic + 'h Engine" where
  "registerRoutes_loop [] engine = Inr engine"
| "registerRoutes_loop (route # rest) engine =
     (case handleRoute route engine of
        Inl p \<Rightarrow> Inl p
      | Inr engine' \<Rightarrow> registerRoutes_loop rest engine')"

definition registerRoutes :: "'h Router \<Rightarrow> 'h Engine \<Rightarrow> panic + 'h Engine" where
  "registerRoutes router engine = registerRoutes_loop (GetRoutes router) engine"

text \<open>\<^verbatim>\<open>FeaturesControl\<close> stores its argument in the receiver.\<close>

definition FeaturesControl :: "'f \<Rightarrow> ('f, 'h) world \<Rightarrow> ('f, 'h) world" where
  "FeaturesControl features w = w\<lparr>app := (app w)\<lparr>Features := features\<rparr>\<rparr>"

text \<open>
  \<^verbatim>\<open>Bootstrap\<close> calls \<^verbatim>\<open>New()\<close> of the package integrator, the middlewares engine, the
  routing engine, the database and the cache, in this order.
\<close>

definition Bootstrap :: "('f, 'h) world \<Rightarrow> ('f, 'h) world" where
  "Bootstrap w =
     w\<lparr>initiated := initiated w @
       [''pkgintegrator'', ''middlewaresengine'', ''routing'', ''database'', ''cache'']\<rparr>"

subsection \<open>\<^verbatim>\<open>Run\<close>\<close>

definition logsFilePath :: string where
  "logsFilePath = ''logs/app.log''"

definition os_OpenFile ::
  "string \<Rightarrow> nat \<Rightarrow> nat \<Rightarrow> ('f, 'h) world \<Rightarrow> error + File" where
  "os_OpenFile name flag perm w = openFile w name flag perm"

definition File_Close :: "File \<Rightarrow> ('f, 'h) world \<Rightarrow> ('f, 'h) world" where
  "File_Close f w = w\<lparr>events := events w @ [Close f]\<rparr>"

text \<open>
  \<^verbatim>\<open>go engine.RunTLS(addr, certFile, keyFile)\<close>: the arguments are evaluated by the
  caller, the call runs on a goroutine of its own and its result goes nowhere.
\<close>

definition go_RunTLS ::
  "'h Engine \<Rightarrow> string \<Rightarrow> string \<Rightarrow> string \<Rightarrow> ('f, 'h) world \<Rightarrow> ('f, 'h) world" where
  "go_RunTLS engine addr certFile keyFile w =
     w\<lparr>events := events w @ [GoRunTLS engine addr certFile keyFile]\<rparr>"

text \<open>
  \<^verbatim>\<open>engine.Run(addr)\<close> serves on the calling goroutine. It returns only with an
  error; \<open>None\<close> says that it never returns.
\<close>

definition engine_Run ::
  "'h Engine \<Rightarrow> string \<Rightarrow> ('f, 'h) world \<Rightarrow> error option \<times> ('f, 'h) world" where
  "engine_Run engine addr w =
     (ListenAndServe w addr, w\<lparr>events := events w @ [EngineRun engine addr]\<rparr>)"

text \<open>How a call ends: with a panic, never (it serves for ever), or by returning.\<close>

datatype 'w outcome = Panics panic 'w | Blocks 'w | Returns 'w

fun world_of :: "'w outcome \<Rightarrow> 'w" where
  "world_of (Panics p w) = w"
| "world_of (Blocks w) = w"
| "world_of (Returns w) = w"

text \<open>
  The block under the comment \<^verbatim>\<open>//serve the https\<close>. A panic of \<^verbatim>\<open>registerRoutes\<close>
  leaves the block before the goroutine is started.
\<close>

definition Run_serve_https ::
  "'h Engine \<Rightarrow> ('f, 'h) world \<Rightarrow> panic + ('f, 'h) world" where
  "Run_serve_https httpsGinEngine0 w =
     (let httpsGinEngine1 = IntegratePackages httpsGinEngine0 (GetIntegrations w);
          router = ResolveRouter w
      in case registerRoutes router httpsGinEngine1 of
           Inl p \<Rightarrow> Inl p
         | Inr httpsGinEngine \<Rightarrow>
             (let certFile = os_Getenv ''APP_HTTPS_CERT_FILE_PATH'' w;
                  keyFile = os_Getenv ''APP_HTTPS_KEY_FILE_PATH'' w;
                  host = getHTTPSHost w @ '':443''
              in Inr (go_RunTLS httpsGinEngine host certFile keyFile w)))"

text \<open>The block under the comment \<^verbatim>\<open>//redirect http to https\<close>.\<close>

definition Run_redirect :: "string \<Rightarrow> ('f, 'h) world \<Rightarrow> error option \<times> ('f, 'h) world" where
  "Run_redirect portNumber w =
     (let redirectEngine = gin_Use [secureFunc] (gin_New (gin_tree_refuses w));
          host = getHTTPHost w @ '':'' @ portNumber
      in engine_Run redirectEngine host w)"

text \<open>
  The block under the comment \<^verbatim>\<open>//serve the http version\<close>, up to the end of
  \<^verbatim>\<open>Run\<close>. The deferred \<^verbatim>\<open>logsFile.Close()\<close> runs when \<^verbatim>\<open>Run\<close> returns and when
  it panics.
\<close>

definition Run_serve_http ::
  "'h Engine \<Rightarrow> string \<Rightarrow> File \<Rightarrow> ('f, 'h) world \<Rightarrow> ('f, 'h) world outcome" where
  "Run_serve_http httpGinEngine0 portNumber logsFile w =
     (let httpGinEngine1 = IntegratePackages httpGinEngine0 (GetIntegrations w);
          router = ResolveRouter w
      in case registerRoutes router httpGinEngine1 of
           Inl p \<Rightarrow> Panics p (File_Close logsFile w)
         | Inr httpGinEngine \<Rightarrow>
             (let host = getHTTPHost w @ '':'' @ portNumber
              in case engine_Run httpGinEngine host w of
                   (None, w') \<Rightarrow> Blocks w'
                 | (Some err, w') \<Rightarrow> Returns (File_Close logsFile w')))"

text \<open>
  \<^verbatim>\<open>Run\<close>: the port falls back to 80; the log file is opened with the flags
  \<^verbatim>\<open>os.O_CREATE|os.O_APPEND|os.O_CREATE\<close> and the permission 644 as the source writes
  them, and a failing open panics; the file opened is a local variable (the package
  variable of the same name is not assigned) and is closed, by the deferred call, when
  \<^verbatim>\<open>Run\<close> returns or panics later on; the two gin engines are created; the two
  switches are parsed, the error of \<^verbatim>\<open>ParseBool\<close> being dropped; then the three
  blocks above.
\<close>

definition Run :: "string \<Rightarrow> ('f, 'h) world \<Rightarrow> ('f, 'h) world outcome" where
  "Run portNumber0 w0 =
     (let portNumber = (if portNumber0 = [] then ''80'' else portNumber0) in
      case os_OpenFile logsFilePath (O_CREATE OR O_APPEND OR O_CREATE) 644 w0 of
        Inl err \<Rightarrow> Panics (PanicError err) w0
      | Inr logsFile \<Rightarrow>
          (let w1 = w0\<lparr>gin_DefaultWriter := MultiWriter [FileWriter logsFile, Stdout]\<rparr>;
               httpGinEngine = gin_Default (gin_tree_refuses w1);
               httpsGinEngine = gin_Default (gin_tree_refuses w1);
               httpsOn = fst (ParseBool (os_Getenv ''APP_HTTPS_ON'' w1));
               redirectToHTTPS = fst (ParseBool (os_Getenv ''APP_REDIRECT_HTTP_TO_HTTPS'' w1))
           in case (if httpsOn then Run_serve_https httpsGinEngine w1 else Inr w1) of
                Inl p \<Rightarrow> Panics p (File_Close logsFile w1)
              | Inr w2 \<Rightarrow>
                  if httpsOn \<and> redirectToHTTPS
                  then (case Run_redirect portNumber w2 of
                          (None, w3) \<Rightarrow> Blocks w3
                        | (Some err, w3) \<Rightarrow>
                            Run_serve_http httpGinEngine portNumber logsFile w3)
                  else Run_serve_http httpGinEngine portNumber logsFile w2))"

fun panicked :: "'w outcome \<Rightarrow> bool" where
  "panicked (Panics p w) = True"
| "panicked (Blocks w) = False"
| "panicked (Returns w) = False"

text \<open>The events a call has added to the trace.\<close>

definition new_events :: "('f, 'h) world \<Rightarrow> ('f, 'h) world \<Rightarrow> 'h event list" where
  "new_events w w' = drop (length (events w)) (events w')"

subsection \<open>The methods of \<^verbatim>\<open>App\<close>\<close>

text \<open>
  One constructor for each function with receiver \<^verbatim>\<open>*App\<close>, carrying the arguments of the
  call, and the state of the process when the call has ended (for \<^verbatim>\<open>Run\<close> and
  \<^verbatim>\<open>SetAppMode\<close>: however it has ended).
\<close>

datatype ('f, 'h) app_call =
    Call_SetEnv "(string \<times> string) list"
  | Call_Bootstrap
  | Call_Run string
  | Call_SetAppMode string
  | Call_IntegratePackages "'h Engine" "'h HandlerFunc list"
  | Call_FeaturesControl 'f
  | Call_useMiddlewares "'h Engine"
  | Call_registerRoutes "'h Router" "'h Engine"
  | Call_handleRoute "'h Route" "'h Engine"
  | Call_getHTTPSHost
  | Call_getHTTPHost

fun call :: "('f, 'h) app_call \<Rightarrow> ('f, 'h) world \<Rightarrow> ('f, 'h) world" where
  "call (Call_SetEnv env) w = SetEnv env w"
| "call Call_Bootstrap w = Bootstrap w"
| "call (Call_Run portNumber) w = world_of (Run portNumber w)"
| "call (Call_SetAppMode mode) w = (case SetAppMode mode w of Inl p \<Rightarrow> w | Inr w' \<Rightarrow> w')"
| "call (Call_IntegratePackages engine handlerFuncs) w =
     (let engine' = IntegratePackages engine handlerFuncs in w)"
| "call (Call_FeaturesControl features) w = FeaturesControl features w"
| "call (Call_useMiddlewares engine) w = (let engine' = useMiddlewares engine w in w)"
| "call (Call_registerRoutes router engine) w = (let engine' = registerRoutes router engine in w)"
| "call (Call_handleRoute route engine) w = (let engine' = handleRoute route engine in w)"
| "call Call_getHTTPSHost w = (let host = getHTTPSHost w in w)"
| "call Call_getHTTPHost w = (let host = getHTTPHost w in w)"

subsection \<open>Observations on a run\<close>

text \<open>The values that \<open>Run\<close> computes from its argument and the process.\<close>

definition httpsOn :: "('f, 'h) world \<Rightarrow> bool" where
  "httpsOn w = fst (ParseBool (os_Getenv ''APP_HTTPS_ON'' w))"

definition redirectToHTTPS :: "('f, 'h) world \<Rightarrow> bool" where
  "redirectToHTTPS w = fst (ParseBool (os_Getenv ''APP_REDIRECT_HTTP_TO_HTTPS'' w))"

definition wired :: "('f, 'h) world \<Rightarrow> panic + 'h Engine" where
  "wired w =
     registerRoutes (ResolveRouter w)
       (IntegratePackages (gin_Default (gin_tree_refuses w)) (GetIntegrations w))"

definition plain_addr :: "string \<Rightarrow> ('f, 'h) world \<Rightarrow> string" where
  "plain_addr portNumber w =
     getHTTPHost w @ '':'' @ (if portNumber = [] then ''80'' else portNumber)"

definition redirectEngine :: "('f, 'h) world \<Rightarrow> 'h Engine" where
  "redirectEngine w = gin_Use [secureFunc] (gin_New (gin_tree_refuses w))"


subsection \<open>A sample process\<close>

text \<open>
  A routing tree that refuses nothing but a path it holds already, as every gin does
  for paths without wild cards.
\<close>

definition static_tree :: "string list \<Rightarrow> string \<Rightarrow> bool" where
  "static_tree paths path = False"

text \<open>
  A process with an empty environment, one integration and one route, in which the
  log file opens and serving never returns.
\<close>

definition world0 :: "(nat, nat) world" where
  "world0 =
     \<lparr>app = New 0, environ = Map.empty, gin_modeName = gin_DebugMode,
      gin_DefaultWriter = Stdout, initiated = [], events = [],
      openFile = (\<lambda>name flag perm. Inr (File 3)),
      GetIntegrations = [Handler 7],
      GetMiddlewares = [],
      ResolveRouter = \<lparr>GetRoutes = [\<lparr>Method = ''get'', Path = ''/'', Handlers = [Handler 1]\<rparr>]\<rparr>,
      ListenAndServe = (\<lambda>addr. None),
      gin_tree_refuses = static_tree\<rparr>"

text \<open>A router that holds the same route twice.\<close>

definition twice :: "nat Router" where
  "twice =
     \<lparr>GetRoutes = [\<lparr>Method = ''get'', Path = ''/'', Handlers = [Handler 1]\<rparr>,
                   \<lparr>Method = ''get'', Path = ''/'', Handlers = [Handler 1]\<rparr>]\<rparr>"

text \<open>
  A route, the engine that \<^verbatim>\<open>gin.Default()\<close> is after the route has been registered
  on it, and an environment in which both switches are on.
\<close>

definition users :: "nat Route" where
  "users = \<lparr>Method = ''get'', Path = ''/users'', Handlers = [Handler 1]\<rparr>"

definition users_engine :: "nat Engine" where
  "users_engine =
     \<lparr>RouterGroup_Handlers = [Logger, Recovery],
      trees = [(GET, ''/users'', [Logger, Recovery, Handler 1])],
      tree_refuses = static_tree\<rparr>"


section \<open>Route dispatch\<close>

lemma recognized_eq:
  "recognized = map verb_name [GET, POST, DELETE, PATCH, PUT, OPTIONS, HEAD]"
  unfolding recognized_def by (simp only: list.map verb_name.simps)

lemma recognized_verb:
  assumes "m \<in> set recognized"
  shows "\<exists>v. m = verb_name v"
  using assms unfolding recognized_eq by (simp only: set_map) (erule imageE, rule exI)

lemma handleRoute_verb:
  "Method route = verb_name v \<Longrightarrow>
   handleRoute route ginEngine = gin_handle v (Path route) (Handlers route) ginEngine"
  by (cases v) (simp_all add: handleRoute_def)

lemma gin_handle_accepts:
  "gin_accepts v relativePath hs engine \<Longrightarrow>
   gin_handle v relativePath hs engine =
     Inr (engine\<lparr>trees := trees engine @
       [(v, joinPaths ''/'' relativePath, RouterGroup_Handlers engine @ hs)]\<rparr>)"
  unfolding gin_accepts_def gin_handle_def Let_def
  by (simp del: append_is_Nil_conv)

lemma gin_handle_refuses:
  "\<not> gin_accepts v relativePath hs engine \<Longrightarrow>
   \<exists>p. gin_handle v relativePath hs engine = Inl p"
  unfolding gin_accepts_def gin_handle_def Let_def
  by (auto simp del: append_is_Nil_conv)

lemma joinPaths_users: "joinPaths ''/'' ''/users'' = ''/users''"
  by code_simp

lemma joinPaths_users_relative: "joinPaths ''/'' ''users'' = ''/users''"
  by code_simp


lemma handleRoute_users: "handleRoute users (gin_Default static_tree) = Inr users_engine"
  by (simp add: handleRoute_def users_def gin_handle_def joinPaths_users Let_def tree_paths_def
      gin_Default_def gin_Use_def gin_New_def static_tree_def users_engine_def)

lemma handleRoute_users_relative:
  "handleRoute (users\<lparr>Path := ''users''\<rparr>) (gin_Default static_tree) = Inr users_engine"
  by (simp add: handleRoute_def users_def gin_handle_def joinPaths_users_relative Let_def
      tree_paths_def gin_Default_def gin_Use_def gin_New_def static_tree_def users_engine_def)

lemma handleRoute_users_again:
  "handleRoute users users_engine = Inl (PanicRoute GET ''/users'')"
  by (simp add: handleRoute_def users_def gin_handle_def joinPaths_users Let_def tree_paths_def
      users_engine_def)

text \<open>
  C1. A route whose method is one of the seven strings get, post, delete, patch, put,
  options, head, that is the lower-case name of a verb, makes \<open>handleRoute\<close> call the
  registration of gin for that verb, once. When gin accepts the registration (the
  handlers of the engine followed by those of the route are at least one and fewer than
  63, and the routing tree of the verb neither holds the joined path nor refuses it), the
  registrations of the engine grow by exactly one entry: the verb, the path joined from
  \<^verbatim>\<open>/\<close> and the path of the route, and that chain; nothing else of the engine
  changes. Otherwise \<open>handleRoute\<close> panics and there is no registration.
\<close>

theorem handleRoute_registers_once:
  "Method route \<in> set recognized \<Longrightarrow>
   (\<exists>v. Method route = verb_name v \<and>
     (if gin_accepts v (Path route) (Handlers route) ginEngine
      then handleRoute route ginEngine =
        Inr (ginEngine\<lparr>trees := trees ginEngine @
          [(v, joinPaths ''/'' (Path route),
            RouterGroup_Handlers ginEngine @ Handlers route)]\<rparr>)
      else (\<exists>p. handleRoute route ginEngine = Inl p)))"
proof -
  assume "Method route \<in> set recognized"
  then obtain v where v: "Method route = verb_name v"
    using recognized_verb by blast
  show ?thesis
  proof (cases "gin_accepts v (Path route) (Handlers route) ginEngine")
    case True
    with v handleRoute_verb [OF v] gin_handle_accepts [OF True] show ?thesis by auto
  next
    case False
    from gin_handle_refuses [OF False] obtain p where
      "handleRoute route ginEngine = Inl p"
      using handleRoute_verb [OF v] by auto
    with v False show ?thesis by auto
  qed
qed

theorem handleRoute_registers_once_witness:
  "Method users \<in> set recognized \<and>
   gin_accepts GET (Path users) (Handlers users) (gin_Default static_tree) \<and>
   \<not> gin_accepts GET (Path users) (Handlers users) users_engine \<and>
   (\<exists>v. Method users = verb_name v \<and>
     (if gin_accepts v (Path users) (Handlers users) (gin_Default static_tree)
      then handleRoute users (gin_Default static_tree) =
        Inr ((gin_Default static_tree)\<lparr>trees := trees (gin_Default static_tree) @
          [(v, joinPaths ''/'' (Path users),
            RouterGroup_Handlers (gin_Default static_tree) @ Handlers users)]\<rparr>)
      else (\<exists>p. handleRoute users (gin_Default static_tree) = Inl p))) \<and>
   (\<exists>v. Method users = verb_name v \<and>
     (if gin_accepts v (Path users) (Handlers users) users_engine
      then handleRoute users users_engine =
        Inr (users_engine\<lparr>trees := trees users_engine @
          [(v, joinPaths ''/'' (Path users),
            RouterGroup_Handlers users_engine @ Handlers users)]\<rparr>)
      else (\<exists>p. handleRoute users users_engine = Inl p)))"
proof -
  have h: "Method users \<in> set recognized"
    by (simp add: users_def recognized_def)
  have a: "gin_accepts GET (Path users) (Handlers users) (gin_Default static_tree)"
    by (simp add: gin_accepts_def users_def joinPaths_users tree_paths_def gin_Default_def
        gin_Use_def gin_New_def static_tree_def)
  have b: "\<not> gin_accepts GET (Path users) (Handlers users) users_engine"
    by (simp add: gin_accepts_def users_def joinPaths_users tree_paths_def users_engine_def)
  from h a b handleRoute_registers_once [OF h, of "gin_Default static_tree"]
    handleRoute_registers_once [OF h, of users_engine]
  show ?thesis by (intro conjI)
qed

text \<open>
  Registering the same route a second time panics; and a route whose path is
  \<^verbatim>\<open>users\<close> is registered at \<^verbatim>\<open>/users\<close>, with the handlers of the engine before
  its own, so that the entry is not the verb with the path and the chain of the route
  as they stand.
\<close>

theorem handleRoute_registers_once_counterexample:
  "handleRoute users users_engine = Inl (PanicRoute GET ''/users'') \<and>
   handleRoute (users\<lparr>Path := ''users''\<rparr>) (gin_Default static_tree) =
     Inr ((gin_Default static_tree)\<lparr>trees := [(GET, ''/users'', [Logger, Recovery, Handler 1])]\<rparr>) \<and>
   handleRoute (users\<lparr>Path := ''users''\<rparr>) (gin_Default static_tree) \<noteq>
     Inr ((gin_Default static_tree)\<lparr>trees := trees (gin_Default static_tree) @
       [(GET, Path (users\<lparr>Path := ''users''\<rparr>), Handlers (users\<lparr>Path := ''users''\<rparr>))]\<rparr>)"
proof -
  have e: "(gin_Default static_tree)\<lparr>trees := [(GET, ''/users'', [Logger, Recovery, Handler 1])]\<rparr>
      = users_engine"
    by (simp add: users_engine_def gin_Default_def gin_Use_def gin_New_def)
  have ne: "users_engine \<noteq> (gin_Default static_tree)\<lparr>trees := trees (gin_Default static_tree) @
       [(GET, Path (users\<lparr>Path := ''users''\<rparr>), Handlers (users\<lparr>Path := ''users''\<rparr>))]\<rparr>"
  proof
    assume "users_engine = (gin_Default static_tree)\<lparr>trees := trees (gin_Default static_tree) @
       [(GET, Path (users\<lparr>Path := ''users''\<rparr>), Handlers (users\<lparr>Path := ''users''\<rparr>))]\<rparr>"
    then have "trees users_engine = trees ((gin_Default static_tree)\<lparr>trees := trees (gin_Default static_tree) @
       [(GET, Path (users\<lparr>Path := ''users''\<rparr>), Handlers (users\<lparr>Path := ''users''\<rparr>))]\<rparr>)"
      by simp
    then show False
      by (simp add: users_engine_def users_def gin_Default_def gin_Use_def gin_New_def)
  qed
  show ?thesis
    using handleRoute_users_again handleRoute_users_relative ne unfolding e by simp
qed

text \<open>
  C2. A route whose method is any other string, an upper-case or mixed-case spelling of
  a verb included, is dropped: \<open>handleRoute\<close> returns the engine it was given, with no
  registration and no panic.
\<close>

theorem handleRoute_drops_unrecognized:
  "Method route \<notin> set recognized \<Longrightarrow> handleRoute route ginEngine = Inr ginEngine"
  by (simp add: handleRoute_def recognized_def)

theorem handleRoute_drops_unrecognized_witness:
  "Method (users\<lparr>Method := ''GET''\<rparr>) \<notin> set recognized \<and>
   handleRoute (users\<lparr>Method := ''GET''\<rparr>) users_engine = Inr users_engine"
proof -
  have h: "Method (users\<lparr>Method := ''GET''\<rparr>) \<notin> set recognized"
    by (simp add: recognized_def)
  show ?thesis
    using h handleRoute_drops_unrecognized [OF h, of users_engine] by simp
qed

section \<open>Host resolution\<close>

text \<open>
  C3. With each of \<^verbatim>\<open>APP_HTTPS_HOST\<close> and \<^verbatim>\<open>APP_HTTP_HOST\<close> set (not empty) or
  unset (empty): \<open>getHTTPSHost\<close> is \<^verbatim>\<open>APP_HTTPS_HOST\<close> when that is not empty,
  otherwise \<^verbatim>\<open>APP_HTTP_HOST\<close> when that is not empty, otherwise localhost;
  \<open>getHTTPHost\<close> is \<^verbatim>\<open>APP_HTTP_HOST\<close> when that is not empty, otherwise localhost.
\<close>

theorem host_resolution:
  "getHTTPSHost w =
     (if os_Getenv ''APP_HTTPS_HOST'' w \<noteq> [] then os_Getenv ''APP_HTTPS_HOST'' w
      else if os_Getenv ''APP_HTTP_HOST'' w \<noteq> [] then os_Getenv ''APP_HTTP_HOST'' w
      else ''localhost'') \<and>
   getHTTPHost w =
     (if os_Getenv ''APP_HTTP_HOST'' w \<noteq> [] then os_Getenv ''APP_HTTP_HOST'' w
      else ''localhost'')"
  by (simp add: getHTTPSHost_def getHTTPHost_def Let_def)

theorem host_resolution_witness:
  "getHTTPSHost (world0\<lparr>environ := [''APP_HTTP_HOST'' \<mapsto> ''example.org'']\<rparr>) = ''example.org'' \<and>
   getHTTPHost (world0\<lparr>environ := [''APP_HTTPS_HOST'' \<mapsto> ''example.org'']\<rparr>) = ''localhost''"
  using host_resolution [of "world0\<lparr>environ := [''APP_HTTP_HOST'' \<mapsto> ''example.org'']\<rparr>"]
    host_resolution [of "world0\<lparr>environ := [''APP_HTTPS_HOST'' \<mapsto> ''example.org'']\<rparr>"]
  by (simp add: os_Getenv_def)

section \<open>The application mode\<close>

text \<open>
  C9. For every string, \<open>SetAppMode\<close> ends without a panic and leaves gin's mode set:
  to the string given when it is gin's release, test or debug mode name, and to the test
  mode for any other string.
\<close>

theorem SetAppMode_mode:
  "SetAppMode mode w =
     Inr (w\<lparr>gin_modeName :=
       (if mode = gin_ReleaseMode \<or> mode = gin_TestMode \<or> mode = gin_DebugMode
        then mode else gin_TestMode)\<rparr>)"
proof -
  have ne: "gin_ReleaseMode \<noteq> []" "gin_TestMode \<noteq> []" "gin_DebugMode \<noteq> []"
    by (simp_all add: gin_ReleaseMode_def gin_TestMode_def gin_DebugMode_def)
  show ?thesis
    using ne by (auto simp: SetAppMode_def gin_SetMode_def Let_def)
qed

theorem SetAppMode_mode_witness:
  "SetAppMode ''release'' world0 = Inr (world0\<lparr>gin_modeName := ''release''\<rparr>) \<and>
   SetAppMode ''production'' world0 = Inr (world0\<lparr>gin_modeName := ''test''\<rparr>) \<and>
   SetAppMode [] world0 = Inr (world0\<lparr>gin_modeName := ''test''\<rparr>)"
  using SetAppMode_mode [of "''release''" world0] SetAppMode_mode [of "''production''" world0]
    SetAppMode_mode [of "[]" world0]
  by (simp add: gin_ReleaseMode_def gin_TestMode_def gin_DebugMode_def)

section \<open>Setting the environment\<close>







lemma TrimLeftSpace_removes_spaces:
  "\<exists>es. set es \<subseteq> set space_runes \<and> s = concat es @ TrimLeftSpace s"
proof (induction s rule: TrimLeftSpace.induct)
  case (1 s)
  show ?case
  proof (cases "leadingSpace s")
    case None
    then have "set [] \<subseteq> set space_runes \<and> s = concat [] @ TrimLeftSpace s"
      by (simp add: TrimLeftSpace.simps [of s])
    then show ?thesis by blast
  next
    case (Some e)
    then have e: "e \<in> set space_runes" "prefix e s"
      using find_Some_mem [of "\<lambda>e. prefix e s" space_runes e]
      by (simp_all add: leadingSpace_def)
    from "1" Some obtain es where es: "set es \<subseteq> set space_runes"
      "drop (length e) s = concat es @ TrimLeftSpace (drop (length e) s)" by blast
    from e(2) have "s = e @ drop (length e) s"
      by (auto simp: prefix_def)
    with es(2) Some have "s = concat (e # es) @ TrimLeftSpace s"
      by (simp add: TrimLeftSpace.simps [of s])
    moreover from e(1) es(1) have "set (e # es) \<subseteq> set space_runes" by simp
    ultimately show ?thesis by blast
  qed
qed

lemma TrimRightSpace_removes_spaces:
  "\<exists>es. set es \<subseteq> set space_runes \<and> s = TrimRightSpace s @ concat es"
proof (induction s rule: TrimRightSpace.induct)
  case (1 s)
  show ?case
  proof (cases "trailingSpace s")
    case None
    then have "set [] \<subseteq> set space_runes \<and> s = TrimRightSpace s @ concat []"
      by (simp add: TrimRightSpace.simps [of s])
    then show ?thesis by blast
  next
    case (Some e)
    then have e: "e \<in> set space_runes" "suffix e s"
      using find_Some_mem [of "\<lambda>e. suffix e s" space_runes e]
      by (simp_all add: trailingSpace_def)
    define t where "t = take (length s - length e) s"
    from "1" Some obtain es where es: "set es \<subseteq> set space_runes"
      "t = TrimRightSpace t @ concat es" unfolding t_def by blast
    from e(2) have "s = t @ e"
      by (auto simp: suffix_def t_def)
    moreover have "TrimRightSpace s = TrimRightSpace t"
      using Some by (simp add: TrimRightSpace.simps [of s] t_def)
    ultimately have "s = TrimRightSpace s @ concat es @ e"
      using es(2) by (metis append.assoc)
    then have "s = TrimRightSpace s @ concat (es @ [e])" by simp
    moreover from e(1) es(1) have "set (es @ [e]) \<subseteq> set space_runes" by simp
    ultimately show ?thesis by blast
  qed
qed

lemma TrimSpace_removes_spaces:
  "\<exists>ls rs. set ls \<subseteq> set space_runes \<and> set rs \<subseteq> set space_runes \<and>
     s = concat ls @ TrimSpace s @ concat rs"
proof -
  obtain ls where ls: "set ls \<subseteq> set space_runes" "s = concat ls @ TrimLeftSpace s"
    using TrimLeftSpace_removes_spaces by blast
  obtain rs where rs: "set rs \<subseteq> set space_runes"
    "TrimLeftSpace s = TrimRightSpace (TrimLeftSpace s) @ concat rs"
    using TrimRightSpace_removes_spaces by blast
  from ls(2) rs(2) have "s = concat ls @ TrimSpace s @ concat rs"
    by (simp add: TrimSpace_def)
  with ls(1) rs(1) show ?thesis by blast
qed







section \<open>Running the application\<close>

lemma os_Getenv_frame [simp]:
  "os_Getenv k (w\<lparr>gin_DefaultWriter := d\<rparr>) = os_Getenv k w"
  "os_Getenv k (w\<lparr>events := evs\<rparr>) = os_Getenv k w"
  by (simp_all add: os_Getenv_def)

lemma getHTTPHost_frame [simp]:
  "getHTTPHost (w\<lparr>gin_DefaultWriter := d\<rparr>) = getHTTPHost w"
  "getHTTPHost (w\<lparr>events := evs\<rparr>) = getHTTPHost w"
  by (simp_all add: getHTTPHost_def Let_def)

lemma getHTTPSHost_frame [simp]:
  "getHTTPSHost (w\<lparr>gin_DefaultWriter := d\<rparr>) = getHTTPSHost w"
  "getHTTPSHost (w\<lparr>events := evs\<rparr>) = getHTTPSHost w"
  by (simp_all add: getHTTPSHost_def Let_def)

lemma wired_frame [simp]:
  "wired (w\<lparr>gin_DefaultWriter := d\<rparr>) = wired w"
  "wired (w\<lparr>events := evs\<rparr>) = wired w"
  by (simp_all add: wired_def)

lemma redirectEngine_frame [simp]:
  "redirectEngine (w\<lparr>gin_DefaultWriter := d\<rparr>) = redirectEngine w"
  "redirectEngine (w\<lparr>events := evs\<rparr>) = redirectEngine w"
  by (simp_all add: redirectEngine_def)

lemma Run_serve_https_events:
  "gin_tree_refuses w = refuses \<Longrightarrow>
   Run_serve_https (gin_Default refuses) w =
     (case wired w of
        Inl p \<Rightarrow> Inl p
      | Inr engine \<Rightarrow> Inr (w\<lparr>events := events w @
          [GoRunTLS engine (getHTTPSHost w @ '':443'')
             (os_Getenv ''APP_HTTPS_CERT_FILE_PATH'' w)
             (os_Getenv ''APP_HTTPS_KEY_FILE_PATH'' w)]\<rparr>))"
  by (auto simp: Run_serve_https_def go_RunTLS_def wired_def Let_def split: sum.splits)

lemma Run_redirect_events:
  "Run_redirect p w =
     (ListenAndServe w (getHTTPHost w @ '':'' @ p),
      w\<lparr>events := events w @ [EngineRun (redirectEngine w) (getHTTPHost w @ '':'' @ p)]\<rparr>)"
  by (simp add: Run_redirect_def engine_Run_def redirectEngine_def Let_def)

lemma Run_serve_http_events:
  "gin_tree_refuses w = refuses \<Longrightarrow>
   Run_serve_http (gin_Default refuses) p logsFile w =
     (case wired w of
        Inl pn \<Rightarrow> Panics pn (w\<lparr>events := events w @ [Close logsFile]\<rparr>)
      | Inr engine \<Rightarrow>
          (case ListenAndServe w (getHTTPHost w @ '':'' @ p) of
             None \<Rightarrow> Blocks (w\<lparr>events := events w @
               [EngineRun engine (getHTTPHost w @ '':'' @ p)]\<rparr>)
           | Some err \<Rightarrow> Returns (w\<lparr>events := events w @
               [EngineRun engine (getHTTPHost w @ '':'' @ p), Close logsFile]\<rparr>)))"
  by (auto simp: Run_serve_http_def engine_Run_def wired_def File_Close_def Let_def
      split: sum.splits option.splits)

lemma new_events_same [simp]: "new_events w w = []"
  by (simp add: new_events_def)

lemma Run_open_fails:
  "os_OpenFile logsFilePath (O_CREATE OR O_APPEND OR O_CREATE) 644 w = Inl err \<Longrightarrow>
   Run portNumber w = Panics (PanicError err) w"
  by (simp add: Run_def Let_def)

lemma Run_gin_panics:
  assumes "os_OpenFile logsFilePath (O_CREATE OR O_APPEND OR O_CREATE) 644 w = Inr logsFile"
    and "wired w = Inl p"
  shows "Run portNumber w =
    Panics p (w\<lparr>gin_DefaultWriter := MultiWriter [FileWriter logsFile, Stdout],
      events := events w @ [Close logsFile]\<rparr>)"
  using assms
  by (simp add: Run_def Let_def Run_serve_https_events Run_redirect_events
      Run_serve_http_events File_Close_def)

lemma Run_trace:
  assumes "os_OpenFile logsFilePath (O_CREATE OR O_APPEND OR O_CREATE) 644 w = Inr logsFile"
    and "wired w = Inr engine"
  shows "new_events w (world_of (Run portNumber w)) =
    (if httpsOn w
     then [GoRunTLS engine (getHTTPSHost w @ '':443'')
             (os_Getenv ''APP_HTTPS_CERT_FILE_PATH'' w) (os_Getenv ''APP_HTTPS_KEY_FILE_PATH'' w)]
     else []) @
    (if httpsOn w \<and> redirectToHTTPS w
     then [EngineRun (redirectEngine w) (plain_addr portNumber w)] else []) @
    (if httpsOn w \<and> redirectToHTTPS w \<and> ListenAndServe w (plain_addr portNumber w) = None
     then []
     else EngineRun engine (plain_addr portNumber w) #
       (if ListenAndServe w (plain_addr portNumber w) = None then [] else [Close logsFile]))"
    and "\<not> panicked (Run portNumber w)"
    and "gin_DefaultWriter (world_of (Run portNumber w)) = MultiWriter [FileWriter logsFile, Stdout]"
  using assms
  by (simp_all add: Run_def Let_def Run_serve_https_events Run_redirect_events
      Run_serve_http_events new_events_def httpsOn_def redirectToHTTPS_def plain_addr_def
      split: option.splits)













lemma world0_opens:
  "os_OpenFile logsFilePath (O_CREATE OR O_APPEND OR O_CREATE) 644 (world0\<lparr>environ := env\<rparr>)
     = Inr (File 3)"
  "os_OpenFile logsFilePath (O_CREATE OR O_APPEND OR O_CREATE) 644
     (world0\<lparr>environ := env, ResolveRouter := twice\<rparr>) = Inr (File 3)"
  by (simp_all add: os_OpenFile_def world0_def)




text \<open>
  C5. The log file is opened at the fixed relative path logs/app.log. When the open
  fails, \<open>Run\<close> panics with the error of the open, having done nothing else. When it
  succeeds, \<open>Run\<close> goes on: gin's default writer becomes the opened file together
  with the standard output, and events follow.
\<close>

theorem Run_log_open:
  "logsFilePath = ''logs/app.log'' \<and>
   (case os_OpenFile logsFilePath (O_CREATE OR O_APPEND OR O_CREATE) 644 w of
      Inl err \<Rightarrow> Run portNumber w = Panics (PanicError err) w
    | Inr logsFile \<Rightarrow>
        gin_DefaultWriter (world_of (Run portNumber w)) =
          MultiWriter [FileWriter logsFile, Stdout] \<and>
        new_events w (world_of (Run portNumber w)) \<noteq> [])"
proof (cases "os_OpenFile logsFilePath (O_CREATE OR O_APPEND OR O_CREATE) 644 w")
  case (Inl err)
  then show ?thesis by (simp add: Run_open_fails logsFilePath_def)
next
  case (Inr logsFile)
  show ?thesis
  proof (cases "wired w")
    case (Inl p)
    with Inr show ?thesis by (simp add: Run_gin_panics new_events_def logsFilePath_def)
  next
    case engine: (Inr engine)
    have "logsFilePath = ''logs/app.log''" by (simp add: logsFilePath_def)
    moreover have "new_events w (world_of (Run portNumber w)) \<noteq> []"
      by (simp add: Run_trace(1) [OF Inr engine])
    ultimately show ?thesis
      using Inr Run_trace(3) [OF Inr engine] by simp
  qed
qed

theorem Run_log_open_witness:
  "Run ''8080'' (world0\<lparr>openFile := \<lambda>name flag perm. Inl (PathError name)\<rparr>) =
     Panics (PanicError (PathError ''logs/app.log''))
       (world0\<lparr>openFile := \<lambda>name flag perm. Inl (PathError name)\<rparr>) \<and>
   gin_DefaultWriter (world_of (Run ''8080'' (world0\<lparr>environ := Map.empty\<rparr>))) =
     MultiWriter [FileWriter (File 3), Stdout] \<and>
   new_events (world0\<lparr>environ := Map.empty\<rparr>)
     (world_of (Run ''8080'' (world0\<lparr>environ := Map.empty\<rparr>))) \<noteq> []"
proof -
  have f: "os_OpenFile logsFilePath (O_CREATE OR O_APPEND OR O_CREATE) 644
      (world0\<lparr>openFile := \<lambda>name flag perm. Inl (PathError name)\<rparr>)
      = Inl (PathError ''logs/app.log'')"
    by (simp add: os_OpenFile_def logsFilePath_def)
  have a: "Run ''8080'' (world0\<lparr>openFile := \<lambda>name flag perm. Inl (PathError name)\<rparr>) =
     Panics (PanicError (PathError ''logs/app.log''))
       (world0\<lparr>openFile := \<lambda>name flag perm. Inl (PathError name)\<rparr>)"
    using Run_log_open
      [where w = "world0\<lparr>openFile := \<lambda>name flag perm. Inl (PathError name)\<rparr>"
        and portNumber = "''8080''", THEN conjunct2]
    unfolding f by (simp only: sum.case)
  have b: "gin_DefaultWriter (world_of (Run ''8080'' (world0\<lparr>environ := Map.empty\<rparr>))) =
     MultiWriter [FileWriter (File 3), Stdout] \<and>
     new_events (world0\<lparr>environ := Map.empty\<rparr>)
       (world_of (Run ''8080'' (world0\<lparr>environ := Map.empty\<rparr>))) \<noteq> []"
    using Run_log_open [where w = "world0\<lparr>environ := Map.empty\<rparr>" and portNumber = "''8080''",
        THEN conjunct2]
    unfolding world0_opens by (simp only: sum.case simp_thms)
  from a b show ?thesis by blast
qed






section \<open>The frame of \<open>Features\<close>\<close>

lemma app_SetEnv: "app (SetEnv env w) = app w"
  by (induction env arbitrary: w) (auto simp: os_Setenv_def)

lemma app_SetAppMode: "app (case SetAppMode mode w of Inl p \<Rightarrow> w | Inr w' \<Rightarrow> w') = app w"
  by (simp add: SetAppMode_def gin_SetMode_def Let_def)

lemma app_Run: "app (world_of (Run portNumber w)) = app w"
  by (simp add: Run_def Let_def Run_serve_https_events Run_redirect_events
      Run_serve_http_events File_Close_def split: sum.splits option.splits)

text \<open>
  C6. \<open>FeaturesControl\<close> sets the \<open>Features\<close> field of the application to its
  argument, and every other function with receiver \<^verbatim>\<open>*App\<close> leaves the field as it
  was, however the call ends.
\<close>

theorem Features_frame:
  "Features (app (call m w)) =
     (case m of Call_FeaturesControl features \<Rightarrow> features | _ \<Rightarrow> Features (app w))"
  by (cases m)
    (simp_all add: app_SetEnv app_SetAppMode app_Run Bootstrap_def FeaturesControl_def)

theorem Features_frame_witness:
  "Features (app (call (Call_FeaturesControl 5) world0)) = 5 \<and>
   Features (app (call (Call_Run ''8080'') world0)) = 0 \<and>
   Features (app (call (Call_SetEnv [(''A'', ''1'')]) world0)) = 0"
  using Features_frame [of "Call_FeaturesControl 5" world0]
    Features_frame [of "Call_Run ''8080''" world0]
    Features_frame [of "Call_SetEnv [(''A'', ''1'')]" world0]
  by (simp add: world0_def New_def)

end
